theory Spec2Isabelle
  imports Main
begin

section \<open>Campus event hub: data model\<close>

text \<open>
  The backend is a set of Express handlers over Mongoose models. Each handler is embedded
  as a function from the request (the authenticated caller, path parameters, body) and the
  state of the collections to a reply and the new state. Every \<open>return res.status(...)\<close>
  and every exception reaching a handler's \<open>catch\<close> is a branch of the model.

  Identifiers are document ids in canonical form. Strings that the source compares
  literally (statuses, roles, modes, field types) stay strings. Timestamps are
  milliseconds as integers. The schema's defaulted bookkeeping timestamps (\<open>added_at\<close>,
  \<open>updatedAt\<close>) are left out; \<open>created_at\<close> is kept because the list handler sorts on it.
\<close>

type_synonym objid = nat
type_synonym datetime = int

text \<open>A path parameter: a well-formed identifier, or a string the driver cannot cast.\<close>

datatype raw_id = Oid objid | Malformed

text \<open>JSON values as they arrive in a request body, with JavaScript truthiness.\<close>

datatype jsvalue = JStr string | JNum int | JBool bool | JNull

fun js_truthy :: "jsvalue \<Rightarrow> bool" where
  "js_truthy (JStr s) = (s \<noteq> [])"
| "js_truthy (JNum n) = (n \<noteq> 0)"
| "js_truthy (JBool b) = b"
| "js_truthy JNull = False"

record user =
  user_oid :: objid
  user_name :: string
  user_email :: string
  user_role :: string

text \<open>The decoded bearer token: \<open>req.user\<close>.\<close>

record caller =
  userId :: objid
  caller_role :: string

record form_field =
  field_id :: string
  label :: string
  field_type :: string
  is_required :: bool
  options :: "string list option"
  order_index :: nat

record event =
  event_oid :: objid
  title :: string
  description :: string
  event_type :: string
  start_datetime :: datetime
  end_datetime :: datetime
  venue :: string
  poster_url :: "string option"
  max_teams :: "nat option"
  registration_open :: bool
  registration_mode :: string
  min_team_size :: nat
  max_team_size :: nat
  registration_start_datetime :: datetime
  registration_end_datetime :: datetime
  organizer_id :: objid
  event_status :: string
  form_fields :: "form_field list"

text \<open>
  A member object as the handlers build it. The member schema declares \<open>user_id\<close>,
  \<open>role\<close>, \<open>invite_status\<close> and \<open>responded_at\<close>; \<open>email\<close> and \<open>name\<close> are
  properties that only the create handler puts on the object.
\<close>

record member =
  user_id :: "objid option"
  email :: "string option"
  name :: "string option"
  role :: string
  invite_status :: string
  responded_at :: "datetime option"

record answer =
  ans_field_id :: string
  field_label :: string
  value_text :: "jsvalue option"
  value_number :: "jsvalue option"
  value_date :: "jsvalue option"

record registration =
  reg_oid :: objid
  event_id :: objid
  mode :: string
  leader_user_id :: objid
  team_name :: "string option"
  status :: string
  members :: "member list"
  answers :: "answer list"
  created_at :: datetime

record state =
  users :: "user list"
  events :: "event list"
  registrations :: "registration list"
  next_oid :: objid

text \<open>A JSON reply: HTTP status, the \<open>message\<close> property and the document sent, if any.\<close>

datatype 'a reply = Reply (code: nat) (message: "string option") (payload: "'a option")

abbreviation fail :: "nat \<Rightarrow> string \<Rightarrow> 'a reply" where
  "fail c m \<equiv> Reply c (Some m) None"

section \<open>Helpers\<close>

text \<open>Template literals print a number in decimal.\<close>

definition digit :: "nat \<Rightarrow> char" where
  "digit d = ''0123456789'' ! (d mod 10)"

fun show_nat :: "nat \<Rightarrow> string" where
  "show_nat n = (if n < 10 then [digit n] else show_nat (n div 10) @ [digit (n mod 10)])"

declare show_nat.simps [simp del]

text \<open>\<open>String.prototype.trim\<close> on the ASCII white space.\<close>

definition is_space :: "char \<Rightarrow> bool" where
  "is_space c = (c \<in> set [CHR '' '', CHR 0x09, CHR 0x0A, CHR 0x0B, CHR 0x0C, CHR 0x0D])"

definition trim :: "string \<Rightarrow> string" where
  "trim s = rev (dropWhile is_space (rev (dropWhile is_space s)))"

text \<open>\<open>Model.findById\<close> and \<open>User.findOne({ email })\<close>.\<close>

definition find_user :: "state \<Rightarrow> objid \<Rightarrow> user option" where
  "find_user st i = find (\<lambda>u. user_oid u = i) (users st)"

definition find_user_by_email :: "state \<Rightarrow> string \<Rightarrow> user option" where
  "find_user_by_email st e = find (\<lambda>u. user_email u = e) (users st)"

definition find_event :: "state \<Rightarrow> objid \<Rightarrow> event option" where
  "find_event st i = find (\<lambda>e. event_oid e = i) (events st)"

definition find_registration :: "state \<Rightarrow> objid \<Rightarrow> registration option" where
  "find_registration st i = find (\<lambda>r. reg_oid r = i) (registrations st)"

section \<open>The registration model: schema validation, unique index, pre-save hook\<close>

text \<open>
  The member schema: \<open>user_id\<close> is required, \<open>role\<close> and \<open>invite_status\<close> are
  enumerations. The answer schema: \<open>field_id\<close> and \<open>field_label\<close> are required strings
  (a required string is rejected when empty).
\<close>

definition validate_member :: "member \<Rightarrow> bool" where
  "validate_member m \<longleftrightarrow>
     user_id m \<noteq> None \<and>
     role m \<in> set [''leader'', ''member''] \<and>
     invite_status m \<in> set [''auto_added'', ''invited'', ''accepted'', ''declined'']"

definition validate_answer :: "answer \<Rightarrow> bool" where
  "validate_answer a \<longleftrightarrow> ans_field_id a \<noteq> [] \<and> field_label a \<noteq> []"

text \<open>
  The \<open>team_name\<close> path: \<open>maxlength\<close> 100 and the custom validator, both run only on a
  value that is present.
\<close>

definition validate_team_name :: "string \<Rightarrow> string option \<Rightarrow> bool" where
  "validate_team_name md tn =
     (case tn of
        None \<Rightarrow> True
      | Some v \<Rightarrow> length v \<le> 100 \<and> (if md = ''team'' then v \<noteq> [] \<and> 0 < length (trim v) else True))"

definition validate_registration :: "registration \<Rightarrow> bool" where
  "validate_registration r \<longleftrightarrow>
     mode r \<in> set [''individual'', ''team''] \<and>
     validate_team_name (mode r) (team_name r) \<and>
     status r \<in> set [''pending'', ''confirmed'', ''waitlisted'', ''cancelled'', ''rejected''] \<and>
     list_all validate_member (members r) \<and>
     list_all validate_answer (answers r)"

text \<open>
  The answer slots are typed \<open>String\<close>, \<open>Number\<close> and \<open>Date\<close>. How the object mapper
  casts a submitted value to a slot type is library behaviour: it is the parameter
  \<open>cast\<close>, which gives the stored value, or \<open>None\<close> when the value cannot be cast.
\<close>

type_synonym caster = "string \<Rightarrow> jsvalue \<Rightarrow> jsvalue option"

definition cast_slot :: "caster \<Rightarrow> string \<Rightarrow> jsvalue option \<Rightarrow> jsvalue option option" where
  "cast_slot cast ty slot =
     (case slot of None \<Rightarrow> Some None | Some v \<Rightarrow> map_option Some (cast ty v))"

definition cast_answer :: "caster \<Rightarrow> answer \<Rightarrow> answer option" where
  "cast_answer cast a =
     (case cast_slot cast ''String'' (value_text a) of
        None \<Rightarrow> None
      | Some t \<Rightarrow>
          (case cast_slot cast ''Number'' (value_number a) of
             None \<Rightarrow> None
           | Some n \<Rightarrow>
               (case cast_slot cast ''Date'' (value_date a) of
                  None \<Rightarrow> None
                | Some d \<Rightarrow> Some (a\<lparr>value_text := t, value_number := n, value_date := d\<rparr>))))"

fun cast_answers :: "caster \<Rightarrow> answer list \<Rightarrow> answer list option" where
  "cast_answers cast [] = Some []"
| "cast_answers cast (a # as) =
     (case cast_answer cast a of
        None \<Rightarrow> None
      | Some a' \<Rightarrow> map_option ((#) a') (cast_answers cast as))"

text \<open>
  What \<open>save\<close> and \<open>create\<close> can throw: a schema \<open>ValidationError\<close>, the plain
  \<open>Error\<close> of the pre-save hook, or the duplicate-key error of the unique index
  on \<open>(event_id, leader_user_id)\<close>.
\<close>

datatype save_error = ValidationError | HookError string | DuplicateKey

text \<open>
  \<open>registrationSchema.pre('save')\<close>: for a team registration whose \<open>members\<close> path is
  modified, the member count is checked against the event's bounds.
\<close>

definition pre_save :: "state \<Rightarrow> bool \<Rightarrow> registration \<Rightarrow> string option" where
  "pre_save st members_modified r =
     (if mode r = ''team'' \<and> members_modified then
        (case find_event st (event_id r) of
           None \<Rightarrow> None
         | Some ev \<Rightarrow>
             let memberCount = length (members r) in
             if memberCount < min_team_size ev then
               Some (''Team must have at least '' @ show_nat (min_team_size ev) @ '' members'')
             else if memberCount > max_team_size ev then
               Some (''Team cannot have more than '' @ show_nat (max_team_size ev) @ '' members'')
             else None)
      else None)"

text \<open>\<open>registration.save()\<close> on a document loaded from the collection.\<close>

definition save_registration :: "state \<Rightarrow> bool \<Rightarrow> registration \<Rightarrow> save_error + state" where
  "save_registration st members_modified r =
     (if \<not> validate_registration r then Inl ValidationError
      else
        (case pre_save st members_modified r of
           Some e \<Rightarrow> Inl (HookError e)
         | None \<Rightarrow>
             Inr (st\<lparr>registrations :=
                    map (\<lambda>x. if reg_oid x = reg_oid r then r else x) (registrations st)\<rparr>)))"

text \<open>
  \<open>Registration.create(data)\<close>: a new document with a fresh id is cast, validated, run
  through the pre-save hook and inserted under the unique index.
\<close>

definition create_document ::
  "caster \<Rightarrow> state \<Rightarrow> bool \<Rightarrow> registration \<Rightarrow> save_error + (registration \<times> state)" where
  "create_document cast st members_set r0 =
     (let r = r0\<lparr>reg_oid := next_oid st\<rparr> in
      case cast_answers cast (answers r) of
        None \<Rightarrow> Inl ValidationError
      | Some as \<Rightarrow>
          let r' = r\<lparr>answers := as\<rparr> in
          if \<not> validate_registration r' then Inl ValidationError
          else
            (case pre_save st members_set r' of
               Some e \<Rightarrow> Inl (HookError e)
             | None \<Rightarrow>
                 if list_ex (\<lambda>x. event_id x = event_id r' \<and> leader_user_id x = leader_user_id r')
                      (registrations st)
                 then Inl DuplicateKey
                 else Inr (r', st\<lparr>registrations := registrations st @ [r'],
                                   next_oid := Suc (next_oid st)\<rparr>)))"

section \<open>POST /api/registrations\<close>

text \<open>
  The handler runs behind \<open>authenticateToken\<close> and \<open>validateRegistration\<close>: the caller is
  the decoded token, \<open>event_id\<close> and every entry of \<open>team_members\<close> are well-formed
  identifiers, and \<open>form_answers\<close>, when present, is an array. \<open>team_members_info\<close> is a
  list of email and name pairs. A property that is \<open>undefined\<close> is \<open>None\<close>. The reply's
  document is the registration; populating its references for the response is left out.
\<close>

record submitted_answer =
  sub_field_id :: string
  sub_value :: jsvalue

record member_info =
  info_email :: string
  info_name :: string

record create_body =
  body_event_id :: objid
  form_answers :: "submitted_answer list option"
  team_members :: "objid list option"
  team_members_info :: "member_info list option"
  body_team_name :: "string option"

definition leader_member :: "objid \<Rightarrow> member" where
  "leader_member uid =
     \<lparr>user_id = Some uid, email = None, name = None, role = ''leader'',
      invite_status = ''auto_added'', responded_at = None\<rparr>"

definition invited_member :: "objid \<Rightarrow> member" where
  "invited_member uid =
     \<lparr>user_id = Some uid, email = None, name = None, role = ''member'',
      invite_status = ''invited'', responded_at = None\<rparr>"

definition pending_member :: "member_info \<Rightarrow> member" where
  "pending_member info =
     \<lparr>user_id = None, email = Some (info_email info), name = Some (info_name info),
      role = ''member'', invite_status = ''pending_registration'', responded_at = None\<rparr>"

text \<open>
  The loop over \<open>team_members\<close>: an identifier that names no user ends the request
  (\<open>Inl\<close>), the leader's own identifier is skipped, every other one is pushed.
\<close>

fun add_team_members :: "state \<Rightarrow> objid \<Rightarrow> objid list \<Rightarrow> member list \<Rightarrow> objid + member list" where
  "add_team_members st uid [] ms = Inr ms"
| "add_team_members st uid (memberId # rest) ms =
     (case find_user st memberId of
        None \<Rightarrow> Inl memberId
      | Some memberUser \<Rightarrow>
          if memberId = uid then add_team_members st uid rest ms
          else add_team_members st uid rest (ms @ [invited_member memberId]))"

text \<open>The loop over \<open>team_members_info\<close>: look the email up, push by account or by pair.\<close>

fun add_team_members_info :: "state \<Rightarrow> objid \<Rightarrow> member_info list \<Rightarrow> member list \<Rightarrow> member list" where
  "add_team_members_info st uid [] ms = ms"
| "add_team_members_info st uid (memberInfo # rest) ms =
     (case find_user_by_email st (info_email memberInfo) of
        Some memberUser \<Rightarrow>
          if user_oid memberUser \<noteq> uid
          then add_team_members_info st uid rest (ms @ [invited_member (user_oid memberUser)])
          else add_team_members_info st uid rest ms
      | None \<Rightarrow> add_team_members_info st uid rest (ms @ [pending_member memberInfo]))"

text \<open>The loop over \<open>form_answers\<close>.\<close>

definition answer_data :: "form_field \<Rightarrow> submitted_answer \<Rightarrow> answer" where
  "answer_data field a =
     (if field_type field = ''number'' then
        \<lparr>ans_field_id = sub_field_id a, field_label = label field,
         value_text = None, value_number = Some (sub_value a), value_date = None\<rparr>
      else if field_type field = ''date'' then
        \<lparr>ans_field_id = sub_field_id a, field_label = label field,
         value_text = None, value_number = None, value_date = Some (sub_value a)\<rparr>
      else
        \<lparr>ans_field_id = sub_field_id a, field_label = label field,
         value_text = Some (sub_value a), value_number = None, value_date = None\<rparr>)"

fun process_answers :: "form_field list \<Rightarrow> submitted_answer list \<Rightarrow> answer list" where
  "process_answers fs [] = []"
| "process_answers fs (a # rest) =
     (case find (\<lambda>f. field_id f = sub_field_id a) fs of
        None \<Rightarrow> process_answers fs rest
      | Some field \<Rightarrow> answer_data field a # process_answers fs rest)"

text \<open>
  Building the \<open>members\<close> array: the leader first, then the two loops. \<open>Inl\<close> is the
  identifier that named no user.
\<close>

definition assemble_members :: "state \<Rightarrow> objid \<Rightarrow> create_body \<Rightarrow> objid + member list" where
  "assemble_members st uid b =
     (case add_team_members st uid (case team_members b of None \<Rightarrow> [] | Some ids \<Rightarrow> ids)
             [leader_member uid] of
        Inl memberId \<Rightarrow> Inl memberId
      | Inr ms \<Rightarrow>
          Inr (add_team_members_info st uid
                 (case team_members_info b of None \<Rightarrow> [] | Some infos \<Rightarrow> infos) ms))"

text \<open>The team block of the handler: the reply that ends the request, or the members.\<close>

definition team_block ::
  "state \<Rightarrow> objid \<Rightarrow> event \<Rightarrow> create_body \<Rightarrow> registration reply + member list" where
  "team_block st uid ev b =
     (if (case body_team_name b of None \<Rightarrow> True | Some tn \<Rightarrow> tn = [] \<or> length (trim tn) = 0)
      then Inl (fail 400 ''Team name is required for team events'')
      else
        (case assemble_members st uid b of
           Inl memberId \<Rightarrow> Inl (fail 404 (''User with ID '' @ show_nat memberId @ '' not found''))
         | Inr ms \<Rightarrow>
             if length ms < min_team_size ev then
               Inl (fail 400 (''Team must have at least '' @ show_nat (min_team_size ev) @ '' members''))
             else if length ms > max_team_size ev then
               Inl (fail 400 (''Team cannot have more than '' @ show_nat (max_team_size ev) @ '' members''))
             else Inr ms))"

text \<open>\<open>Registration.create\<close>, the success reply and the handler's \<open>catch\<close>.\<close>

definition create_and_reply ::
  "caster \<Rightarrow> state \<Rightarrow> bool \<Rightarrow> registration \<Rightarrow> registration reply \<times> state" where
  "create_and_reply cast st members_set r0 =
     (case create_document cast st members_set r0 of
        Inr (r, st') \<Rightarrow> (Reply 201 (Some ''Registration successful'') (Some r), st')
      | Inl ValidationError \<Rightarrow> (fail 400 ''Validation failed'', st)
      | Inl _ \<Rightarrow> (fail 500 ''Server error during registration'', st))"

text \<open>
  \<open>registrationData\<close> as first built (the document id is assigned by \<open>create\<close>), and
  the answers put on it: none when the body has no \<open>form_answers\<close> array.
\<close>

definition registrationData :: "datetime \<Rightarrow> objid \<Rightarrow> create_body \<Rightarrow> event \<Rightarrow> registration" where
  "registrationData now uid b ev =
     \<lparr>reg_oid = 0, event_id = body_event_id b, mode = registration_mode ev,
      leader_user_id = uid, team_name = None, status = ''pending'',
      members = [], answers = [], created_at = now\<rparr>"

definition submitted_answers :: "create_body \<Rightarrow> event \<Rightarrow> answer list" where
  "submitted_answers b ev =
     (case form_answers b of None \<Rightarrow> [] | Some fa \<Rightarrow> process_answers (form_fields ev) fa)"

definition active_count :: "state \<Rightarrow> objid \<Rightarrow> nat" where
  "active_count st eid =
     length (filter (\<lambda>r. event_id r = eid \<and> status r \<in> set [''pending'', ''confirmed''])
               (registrations st))"

definition existing_registration :: "state \<Rightarrow> objid \<Rightarrow> objid \<Rightarrow> registration option" where
  "existing_registration st eid uid =
     find (\<lambda>r. event_id r = eid \<and> leader_user_id r = uid) (registrations st)"

definition create_registration ::
  "caster \<Rightarrow> datetime \<Rightarrow> caller \<Rightarrow> create_body \<Rightarrow> state \<Rightarrow> registration reply \<times> state" where
  "create_registration cast now c b st =
     (case find_event st (body_event_id b) of
        None \<Rightarrow> (fail 404 ''Event not found'', st)
      | Some ev \<Rightarrow>
          if event_status ev \<noteq> ''published'' \<and> event_status ev \<noteq> ''ongoing'' then
            (fail 400 ''Registration is not open for this event'', st)
          else if \<not> registration_open ev then
            (fail 400 ''Registration is currently closed'', st)
          else if now < registration_start_datetime ev then
            (fail 400 ''Registration has not started yet'', st)
          else if now > registration_end_datetime ev then
            (fail 400 ''Registration deadline has passed'', st)
          else if existing_registration st (body_event_id b) (userId c) \<noteq> None then
            (fail 409 ''You are already registered for this event'', st)
          else if (case max_teams ev of None \<Rightarrow> False | Some mt \<Rightarrow> mt \<noteq> 0 \<and> active_count st (body_event_id b) \<ge> mt) then
            (fail 400 ''Event has reached maximum capacity'', st)
          else if registration_mode ev = ''team'' then
            (case team_block st (userId c) ev b of
               Inl r \<Rightarrow> (r, st)
             | Inr ms \<Rightarrow>
                 create_and_reply cast st True
                   ((registrationData now (userId c) b ev)
                      \<lparr>team_name := body_team_name b, members := ms,
                       answers := submitted_answers b ev\<rparr>))
          else
            create_and_reply cast st False
              ((registrationData now (userId c) b ev)\<lparr>answers := submitted_answers b ev\<rparr>))"

section \<open>Team invitations and members\<close>

text \<open>\<open>Array.prototype.findIndex\<close>: the first index whose element satisfies the test.\<close>

fun findIndex :: "('a \<Rightarrow> bool) \<Rightarrow> 'a list \<Rightarrow> nat option" where
  "findIndex P [] = None"
| "findIndex P (x # xs) = (if P x then Some 0 else map_option Suc (findIndex P xs))"

text \<open>
  A search that reads \<open>m.user_id.toString()\<close> without a guard: a member with no
  \<open>user_id\<close> met before a match throws a \<open>TypeError\<close> (\<open>Inl ()\<close>).
\<close>

fun findIndex_unguarded :: "objid \<Rightarrow> member list \<Rightarrow> unit + nat option" where
  "findIndex_unguarded uid [] = Inr None"
| "findIndex_unguarded uid (m # ms) =
     (case user_id m of
        None \<Rightarrow> Inl ()
      | Some u \<Rightarrow>
          if u = uid then Inr (Some 0)
          else (case findIndex_unguarded uid ms of
                  Inl e \<Rightarrow> Inl e
                | Inr r \<Rightarrow> Inr (map_option Suc r)))"

definition accepted_count :: "member list \<Rightarrow> nat" where
  "accepted_count ms =
     length (filter (\<lambda>m. invite_status m = ''accepted'' \<or> invite_status m = ''auto_added'') ms)"

subsection \<open>PUT /api/registrations/:registrationId/invitation\<close>

definition respond_invitation ::
  "caller \<Rightarrow> raw_id \<Rightarrow> string option \<Rightarrow> state \<Rightarrow> registration reply \<times> state" where
  "respond_invitation c registrationId action st =
     (if action \<noteq> Some ''accept'' \<and> action \<noteq> Some ''decline'' then
        (fail 400 ''Invalid action. Must be \"accept\" or \"decline\"'', st)
      else case registrationId of
        Malformed \<Rightarrow> (fail 500 ''Server error while updating invitation'', st)
      | Oid rid \<Rightarrow>
          (case find_registration st rid of
             None \<Rightarrow> (fail 404 ''Registration not found'', st)
           | Some registration \<Rightarrow>
               (case findIndex (\<lambda>m. user_id m = Some (userId c)) (members registration) of
                  None \<Rightarrow> (fail 404 ''You are not invited to this team'', st)
                | Some memberIndex \<Rightarrow>
                    let member = members registration ! memberIndex in
                    if invite_status member \<noteq> ''invited'' then
                      (fail 400 (''Invitation already '' @ invite_status member), st)
                    else
                      let registration' = registration
                            \<lparr>members := (members registration)
                               [memberIndex := member
                                  \<lparr>invite_status :=
                                     (if action = Some ''accept'' then ''accepted'' else ''declined'')\<rparr>]\<rparr>
                      in (case save_registration st True registration' of
                            Inl e \<Rightarrow> (fail 500 ''Server error while updating invitation'', st)
                          | Inr st' \<Rightarrow>
                              (Reply 200 (Some (''Invitation '' @ the action @ ''ed successfully''))
                                 (Some registration'), st')))))"

subsection \<open>PUT /api/registrations/:registrationId/members/:memberId\<close>

definition update_member_status ::
  "datetime \<Rightarrow> caller \<Rightarrow> raw_id \<Rightarrow> raw_id \<Rightarrow> string option \<Rightarrow> state \<Rightarrow> registration reply \<times> state" where
  "update_member_status now c registrationId memberId new_status st =
     (case (registrationId, memberId) of
        (Oid rid, Oid mid) \<Rightarrow>
         (if new_status \<noteq> Some ''accepted'' \<and> new_status \<noteq> Some ''declined'' then
            (fail 400 ''Invalid invite status. Must be \"accepted\" or \"declined\"'', st)
          else
            (case find_registration st rid of
               None \<Rightarrow> (fail 404 ''Registration not found'', st)
             | Some registration \<Rightarrow>
                 (case findIndex_unguarded mid (members registration) of
                    Inl e \<Rightarrow> (fail 500 ''Server error while updating member status'', st)
                  | Inr None \<Rightarrow> (fail 404 ''Member not found in this registration'', st)
                  | Inr (Some i) \<Rightarrow>
                      if userId c \<noteq> mid then
                        (fail 403 ''You can only update your own invite status'', st)
                      else
                        let member = members registration ! i;
                            members' = (members registration)
                              [i := member\<lparr>invite_status := the new_status,
                                           responded_at := Some now\<rparr>]
                        in (case find_event st (event_id registration) of
                             None \<Rightarrow> (fail 500 ''Server error while updating member status'', st)
                           | Some ev \<Rightarrow>
                               let registration' =
                                     (if accepted_count members' \<ge> min_team_size ev \<and>
                                         accepted_count members' \<le> max_team_size ev
                                      then registration\<lparr>members := members', status := ''confirmed''\<rparr>
                                      else registration\<lparr>members := members'\<rparr>)
                               in (case save_registration st True registration' of
                                     Inl e \<Rightarrow> (fail 500 ''Server error while updating member status'', st)
                                   | Inr st' \<Rightarrow>
                                       (Reply 200 (Some (''Invitation '' @ the new_status))
                                          (Some registration'), st'))))))
      | _ \<Rightarrow> (fail 400 ''Invalid registration or member ID'', st))"

subsection \<open>DELETE /api/registrations/:registrationId/members/:memberId\<close>

text \<open>\<open>members.splice(memberIndex, 1)\<close>.\<close>

definition splice1 :: "nat \<Rightarrow> 'a list \<Rightarrow> 'a list" where
  "splice1 i xs = take i xs @ drop (Suc i) xs"

definition remove_member ::
  "caller \<Rightarrow> raw_id \<Rightarrow> raw_id \<Rightarrow> state \<Rightarrow> registration reply \<times> state" where
  "remove_member c registrationId memberId st =
     (case registrationId of
        Malformed \<Rightarrow> (fail 500 ''Server error while removing team member'', st)
      | Oid rid \<Rightarrow>
          (case find_registration st rid of
             None \<Rightarrow> (fail 404 ''Registration not found'', st)
           | Some registration \<Rightarrow>
               if leader_user_id registration \<noteq> userId c then
                 (fail 403 ''Only team leader can remove members'', st)
               else
                 (case findIndex (\<lambda>m. case memberId of
                                        Oid mid \<Rightarrow> user_id m = Some mid
                                      | Malformed \<Rightarrow> False)
                         (members registration) of
                    None \<Rightarrow> (fail 404 ''Member not found in team'', st)
                  | Some memberIndex \<Rightarrow>
                      let memberToRemove = members registration ! memberIndex in
                      if role memberToRemove = ''leader'' then
                        (fail 400 ''Cannot remove team leader'', st)
                      else
                        (case find_event st (event_id registration) of
                           None \<Rightarrow> (fail 404 ''Event not found'', st)
                         | Some ev \<Rightarrow>
                             if (invite_status memberToRemove = ''accepted'' \<or>
                                 invite_status memberToRemove = ''auto_added'') \<and>
                                accepted_count (members registration) \<le> min_team_size ev
                             then
                               (fail 400 (''Cannot remove accepted member. Team must have at least ''
                                          @ show_nat (min_team_size ev) @ '' accepted members''), st)
                             else
                               let registration' = registration
                                     \<lparr>members := splice1 memberIndex (members registration)\<rparr>
                               in (case save_registration st True registration' of
                                     Inl e \<Rightarrow> (fail 500 ''Server error while removing team member'', st)
                                   | Inr st' \<Rightarrow>
                                       (Reply 200 (Some ''Team member removed successfully'')
                                          (Some registration'), st'))))))"

subsection \<open>DELETE /api/registrations/:registrationId\<close>

definition cancel_registration ::
  "caller \<Rightarrow> raw_id \<Rightarrow> state \<Rightarrow> registration reply \<times> state" where
  "cancel_registration c registrationId st =
     (case registrationId of
        Malformed \<Rightarrow> (fail 400 ''Invalid registration ID'', st)
      | Oid rid \<Rightarrow>
          (case find_registration st rid of
             None \<Rightarrow> (fail 404 ''Registration not found'', st)
           | Some registration \<Rightarrow>
               let isLeader = (leader_user_id registration = userId c) in
               (case findIndex_unguarded (userId c) (members registration) of
                  Inl e \<Rightarrow> (fail 500 ''Server error while cancelling registration'', st)
                | Inr found \<Rightarrow>
                    let isMember = (found \<noteq> None);
                        isAdmin = (caller_role c = ''admin'')
                    in if \<not> isLeader \<and> \<not> isMember \<and> \<not> isAdmin then
                         (fail 403 ''You are not authorized to cancel this registration'', st)
                       else
                         (case save_registration st False (registration\<lparr>status := ''cancelled''\<rparr>) of
                            Inl e \<Rightarrow> (fail 500 ''Server error while cancelling registration'', st)
                          | Inr st' \<Rightarrow>
                              (Reply 200 (Some ''Registration cancelled successfully'') None, st')))))"

section \<open>Reading registrations\<close>

subsection \<open>GET /api/registrations/:registrationId\<close>

text \<open>
  The registration is read with its references populated: a reference to a missing
  document becomes \<open>null\<close>, and reading \<open>._id\<close> of it throws (\<open>Inl ()\<close>).
  \<open>members.some(m => m.user_id._id.toString() === userId)\<close> stops at the first match.
\<close>

fun some_member_is :: "state \<Rightarrow> objid \<Rightarrow> member list \<Rightarrow> unit + bool" where
  "some_member_is st uid [] = Inr False"
| "some_member_is st uid (m # ms) =
     (case (case user_id m of None \<Rightarrow> None | Some u \<Rightarrow> find_user st u) of
        None \<Rightarrow> Inl ()
      | Some populated \<Rightarrow>
          if user_oid populated = uid then Inr True else some_member_is st uid ms)"

definition get_registration :: "caller \<Rightarrow> raw_id \<Rightarrow> state \<Rightarrow> registration reply" where
  "get_registration c registrationId st =
     (case registrationId of
        Malformed \<Rightarrow> fail 400 ''Invalid registration ID''
      | Oid rid \<Rightarrow>
          (case find_registration st rid of
             None \<Rightarrow> fail 404 ''Registration not found''
           | Some registration \<Rightarrow>
               let isOrganizer =
                     (case find_event st (event_id registration) of
                        None \<Rightarrow> False
                      | Some ev \<Rightarrow> organizer_id ev = userId c)
               in (case find_user st (leader_user_id registration) of
                    None \<Rightarrow> fail 500 ''Server error while fetching registration''
                  | Some leader \<Rightarrow>
                      let isLeader = (user_oid leader = userId c) in
                      (case some_member_is st (userId c) (members registration) of
                         Inl e \<Rightarrow> fail 500 ''Server error while fetching registration''
                       | Inr isMember \<Rightarrow>
                           let isAdmin = (caller_role c = ''admin'') in
                           if \<not> isOrganizer \<and> \<not> isLeader \<and> \<not> isMember \<and> \<not> isAdmin then
                             fail 403 ''You are not authorized to view this registration''
                           else Reply 200 None (Some registration)))))"

subsection \<open>GET /api/registrations\<close>

text \<open>
  The query filter the handler builds: an optional \<open>event_id\<close>, an optional \<open>$or\<close>
  clause for the caller, an optional \<open>status\<close>.
\<close>

record reg_filter =
  flt_event_id :: "objid option"
  flt_or :: "objid option"
  flt_status :: "string option"

text \<open>
  How the database matches the filter. The second branch of \<open>$or\<close> is
  \<open>{ 'members.user_id': u, 'members.invite_status': { $in: [...] } }\<close>: two conditions
  on paths into the array, written without \<open>$elemMatch\<close>. Each is satisfied by any
  element of the array, not necessarily the same one.
\<close>

definition matches :: "reg_filter \<Rightarrow> registration \<Rightarrow> bool" where
  "matches flt r \<longleftrightarrow>
     (case flt_event_id flt of None \<Rightarrow> True | Some e \<Rightarrow> event_id r = e) \<and>
     (case flt_or flt of
        None \<Rightarrow> True
      | Some u \<Rightarrow>
          leader_user_id r = u \<or>
          (list_ex (\<lambda>m. user_id m = Some u) (members r) \<and>
           list_ex (\<lambda>m. invite_status m \<in> set [''accepted'', ''auto_added'']) (members r))) \<and>
     (case flt_status flt of None \<Rightarrow> True | Some s \<Rightarrow> status r = s)"

record list_query =
  q_event_id :: "raw_id option"
  q_status :: "string option"
  q_skip :: nat
  q_limit :: nat

record reg_page =
  count :: nat
  total :: nat
  page_registrations :: "registration list"

text \<open>Newest first, then \<open>skip\<close> and \<open>limit\<close> (a limit of zero is no limit).\<close>

definition paginate :: "nat \<Rightarrow> nat \<Rightarrow> registration list \<Rightarrow> registration list" where
  "paginate sk lim rs =
     (let sorted = sort_key (\<lambda>r. - created_at r) rs;
          rest = drop sk sorted
      in if lim = 0 then rest else take lim rest)"

definition run_query :: "state \<Rightarrow> reg_filter \<Rightarrow> list_query \<Rightarrow> reg_page reply" where
  "run_query st flt0 q =
     (let flt = (case q_status q of
                   None \<Rightarrow> flt0
                 | Some s \<Rightarrow> if s = [] then flt0 else flt0\<lparr>flt_status := Some s\<rparr>);
          found = filter (matches flt) (registrations st);
          pg = paginate (q_skip q) (q_limit q) found
      in Reply 200 None (Some \<lparr>count = length pg, total = length found, page_registrations = pg\<rparr>))"

definition list_registrations :: "caller \<Rightarrow> list_query \<Rightarrow> state \<Rightarrow> reg_page reply" where
  "list_registrations c q st =
     (let own = \<lparr>flt_event_id = None, flt_or = Some (userId c), flt_status = None\<rparr> in
      case q_event_id q of
        None \<Rightarrow> run_query st own q
      | Some Malformed \<Rightarrow> fail 400 ''Invalid event ID''
      | Some (Oid eid) \<Rightarrow>
          (case find_event st eid of
             None \<Rightarrow> fail 404 ''Event not found''
           | Some ev \<Rightarrow>
               if organizer_id ev \<noteq> userId c \<and> caller_role c \<noteq> ''admin'' then
                 run_query st (own\<lparr>flt_event_id := Some eid\<rparr>) q
               else
                 run_query st \<lparr>flt_event_id = Some eid, flt_or = None, flt_status = None\<rparr> q))"

section \<open>Events: update and delete\<close>

text \<open>
  The body of an update. \<open>event_type\<close> and \<open>organizer_id\<close> are read as raw values: the
  handler tests their truthiness. The other properties are the ones of \<open>allowedUpdates\<close>;
  \<open>None\<close> is \<open>undefined\<close>.
\<close>

record event_update =
  upd_event_type :: "jsvalue option"
  upd_organizer_id :: "jsvalue option"
  upd_title :: "string option"
  upd_description :: "string option"
  upd_venue :: "string option"
  upd_poster_url :: "string option"
  upd_event_status :: "string option"
  upd_start_datetime :: "datetime option"
  upd_end_datetime :: "datetime option"
  upd_registration_start_datetime :: "datetime option"
  upd_registration_end_datetime :: "datetime option"
  upd_max_teams :: "nat option"
  upd_registration_open :: "bool option"

definition apply_updates :: "event_update \<Rightarrow> event \<Rightarrow> event" where
  "apply_updates b ev =
     ev\<lparr>title := (case upd_title b of None \<Rightarrow> title ev | Some v \<Rightarrow> v),
        description := (case upd_description b of None \<Rightarrow> description ev | Some v \<Rightarrow> v),
        venue := (case upd_venue b of None \<Rightarrow> venue ev | Some v \<Rightarrow> v),
        poster_url := (case upd_poster_url b of None \<Rightarrow> poster_url ev | Some v \<Rightarrow> Some v),
        event_status := (case upd_event_status b of None \<Rightarrow> event_status ev | Some v \<Rightarrow> v),
        start_datetime := (case upd_start_datetime b of None \<Rightarrow> start_datetime ev | Some v \<Rightarrow> v),
        end_datetime := (case upd_end_datetime b of None \<Rightarrow> end_datetime ev | Some v \<Rightarrow> v),
        registration_start_datetime :=
          (case upd_registration_start_datetime b of
             None \<Rightarrow> registration_start_datetime ev | Some v \<Rightarrow> v),
        registration_end_datetime :=
          (case upd_registration_end_datetime b of
             None \<Rightarrow> registration_end_datetime ev | Some v \<Rightarrow> v),
        max_teams := (case upd_max_teams b of None \<Rightarrow> max_teams ev | Some v \<Rightarrow> Some v),
        registration_open :=
          (case upd_registration_open b of None \<Rightarrow> registration_open ev | Some v \<Rightarrow> v)\<rparr>"

text \<open>
  \<open>event.save()\<close>. Which of the event schema's validators run on a loaded document, and
  against which clock, is library behaviour: their verdict is the parameter \<open>valid\<close>.
\<close>

definition store_event :: "state \<Rightarrow> event \<Rightarrow> state" where
  "store_event st ev =
     st\<lparr>events := map (\<lambda>x. if event_oid x = event_oid ev then ev else x) (events st)\<rparr>"

definition published :: "event \<Rightarrow> bool" where
  "published ev \<longleftrightarrow> event_status ev = ''published'' \<or> event_status ev = ''ongoing''"

definition update_event ::
  "(event \<Rightarrow> bool) \<Rightarrow> caller \<Rightarrow> raw_id \<Rightarrow> event_update \<Rightarrow> state \<Rightarrow> event reply \<times> state" where
  "update_event valid c eventId b st =
     (case eventId of
        Malformed \<Rightarrow> (fail 400 ''Invalid event ID'', st)
      | Oid eid \<Rightarrow>
          (case find_event st eid of
             None \<Rightarrow> (fail 404 ''Event not found'', st)
           | Some ev \<Rightarrow>
               if organizer_id ev \<noteq> userId c \<and> caller_role c \<noteq> ''admin'' then
                 (fail 403 ''You are not authorized to update this event'', st)
               else if published ev \<and>
                       (case upd_event_type b of
                          None \<Rightarrow> False
                        | Some v \<Rightarrow> js_truthy v \<and> v \<noteq> JStr (event_type ev)) then
                 (fail 400 ''Cannot change event type after publication'', st)
               else if published ev \<and>
                       (case upd_organizer_id b of None \<Rightarrow> False | Some v \<Rightarrow> js_truthy v) then
                 (fail 400 ''Cannot change organizer after publication'', st)
               else
                 let ev' = apply_updates b ev in
                 if \<not> valid ev' then (fail 400 ''Validation failed'', st)
                 else (Reply 200 (Some ''Event updated successfully'') (Some ev'),
                       store_event st ev')))"

definition delete_event ::
  "(event \<Rightarrow> bool) \<Rightarrow> caller \<Rightarrow> raw_id \<Rightarrow> state \<Rightarrow> event reply \<times> state" where
  "delete_event valid c eventId st =
     (case eventId of
        Malformed \<Rightarrow> (fail 400 ''Invalid event ID'', st)
      | Oid eid \<Rightarrow>
          (case find_event st eid of
             None \<Rightarrow> (fail 404 ''Event not found'', st)
           | Some ev \<Rightarrow>
               if organizer_id ev \<noteq> userId c \<and> caller_role c \<noteq> ''admin'' then
                 (fail 403 ''You are not authorized to delete this event'', st)
               else
                 let ev' = ev\<lparr>event_status := ''cancelled''\<rparr> in
                 if \<not> valid ev' then (fail 500 ''Server error while deleting event'', st)
                 else (Reply 200 (Some ''Event cancelled successfully'') None,
                       store_event st ev')))"

section \<open>A small campus, for evaluating the handlers\<close>

definition alice :: user where
  "alice = \<lparr>user_oid = 1, user_name = ''Alice'', user_email = ''alice@campus.edu'',
            user_role = ''student''\<rparr>"

definition bob :: user where
  "bob = \<lparr>user_oid = 2, user_name = ''Bob'', user_email = ''bob@campus.edu'',
          user_role = ''student''\<rparr>"

definition carol :: user where
  "carol = \<lparr>user_oid = 3, user_name = ''Carol'', user_email = ''carol@campus.edu'',
            user_role = ''society_head''\<rparr>"

definition dave :: user where
  "dave = \<lparr>user_oid = 4, user_name = ''Dave'', user_email = ''dave@campus.edu'',
           user_role = ''student''\<rparr>"

definition as_caller :: "user \<Rightarrow> caller" where
  "as_caller u = \<lparr>userId = user_oid u, caller_role = user_role u\<rparr>"

definition college_field :: form_field where
  "college_field = \<lparr>field_id = ''f-college'', label = ''College'', field_type = ''short_text'',
                    is_required = True, options = None, order_index = 0\<rparr>"

definition year_field :: form_field where
  "year_field = \<lparr>field_id = ''f-year'', label = ''Year of study'', field_type = ''number'',
                 is_required = True, options = None, order_index = 1\<rparr>"

definition birth_field :: form_field where
  "birth_field = \<lparr>field_id = ''f-birth'', label = ''Date of birth'', field_type = ''date'',
                  is_required = False, options = None, order_index = 2\<rparr>"

text \<open>
  A published team event for teams of two to four, registration open from 1000 to 2000.
\<close>

definition hackathon :: event where
  "hackathon =
     \<lparr>event_oid = 10, title = ''Campus Hackathon'', description = ''Build something in a day'',
      event_type = ''hackathon'', start_datetime = 3000, end_datetime = 4000,
      venue = ''Main hall'', poster_url = None, max_teams = None, registration_open = True,
      registration_mode = ''team'', min_team_size = 2, max_team_size = 4,
      registration_start_datetime = 1000, registration_end_datetime = 2000,
      organizer_id = 3, event_status = ''published'',
      form_fields = [college_field, year_field, birth_field]\<rparr>"

definition campus :: state where
  "campus = \<lparr>users = [alice, bob, carol, dave], events = [hackathon], registrations = [],
             next_oid = 100\<rparr>"

definition with_event :: "event \<Rightarrow> state" where
  "with_event ev = campus\<lparr>events := [ev]\<rparr>"

definition team_body :: create_body where
  "team_body = \<lparr>body_event_id = 10, form_answers = None, team_members = Some [2],
               team_members_info = None, body_team_name = Some ''Rockets''\<rparr>"

text \<open>Alice's team with Bob invited, as the create handler stores it.\<close>

definition rockets :: registration where
  "rockets =
     \<lparr>reg_oid = 100, event_id = 10, mode = ''team'', leader_user_id = 1,
      team_name = Some ''Rockets'', status = ''pending'',
      members = [leader_member 1, invited_member 2], answers = [], created_at = 1500\<rparr>"

definition with_registration :: "registration \<Rightarrow> state" where
  "with_registration r = campus\<lparr>registrations := [r], next_oid := 101\<rparr>"

text \<open>An invitee with no account, and a submitted form with one unknown field.\<close>

definition eve :: member_info where
  "eve = \<lparr>info_email = ''eve@elsewhere.org'', info_name = ''Eve''\<rparr>"

definition survey :: "submitted_answer list" where
  "survey =
     [\<lparr>sub_field_id = ''f-year'', sub_value = JNum 2\<rparr>,
      \<lparr>sub_field_id = ''f-unknown'', sub_value = JStr ''ignored''\<rparr>,
      \<lparr>sub_field_id = ''f-college'', sub_value = JStr ''Engineering''\<rparr>,
      \<lparr>sub_field_id = ''f-birth'', sub_value = JStr ''2004-05-06''\<rparr>]"

definition survey_stored :: "answer list" where
  "survey_stored =
     [\<lparr>ans_field_id = ''f-year'', field_label = ''Year of study'', value_text = None,
       value_number = Some (JNum 2), value_date = None\<rparr>,
      \<lparr>ans_field_id = ''f-college'', field_label = ''College'',
       value_text = Some (JStr ''Engineering''), value_number = None, value_date = None\<rparr>,
      \<lparr>ans_field_id = ''f-birth'', field_label = ''Date of birth'', value_text = None,
       value_number = None, value_date = Some (JStr ''2004-05-06'')\<rparr>]"

text \<open>Bob after he has answered the invitation.\<close>

definition accepted_member :: "objid \<Rightarrow> member" where
  "accepted_member uid = (invited_member uid)\<lparr>invite_status := ''accepted''\<rparr>"

definition declined_member :: "objid \<Rightarrow> member" where
  "declined_member uid = (invited_member uid)\<lparr>invite_status := ''declined''\<rparr>"

text \<open>A listing with no filter, on the first page.\<close>

definition everything :: list_query where
  "everything = \<lparr>q_event_id = None, q_status = None, q_skip = 0, q_limit = 20\<rparr>"

text \<open>
  Event validators that pass, and update bodies: one that sets nothing, one with a new
  title beside an empty \<open>event_type\<close> and a \<open>null\<close> \<open>organizer_id\<close>, one with
  another \<open>event_type\<close>.
\<close>

definition always_valid :: "event \<Rightarrow> bool" where
  "always_valid ev = True"

definition no_update :: event_update where
  "no_update =
     \<lparr>upd_event_type = None, upd_organizer_id = None, upd_title = None, upd_description = None,
      upd_venue = None, upd_poster_url = None, upd_event_status = None,
      upd_start_datetime = None, upd_end_datetime = None,
      upd_registration_start_datetime = None, upd_registration_end_datetime = None,
      upd_max_teams = None, upd_registration_open = None\<rparr>"

definition retitle :: event_update where
  "retitle = no_update\<lparr>upd_event_type := Some (JStr ''''), upd_organizer_id := Some JNull,
                        upd_title := Some ''Campus Hackathon II''\<rparr>"

definition retype :: event_update where
  "retype = no_update\<lparr>upd_event_type := Some (JStr ''workshop'')\<rparr>"

text \<open>A caster that stores every value as submitted.\<close>

definition keep :: caster where
  "keep ty v = Some v"

section \<open>Predicates of the specification\<close>

text \<open>A registration for this event led by this account exists already.\<close>

definition already_registered :: "state \<Rightarrow> objid \<Rightarrow> objid \<Rightarrow> bool" where
  "already_registered st eid uid \<longleftrightarrow>
     list_ex (\<lambda>r. event_id r = eid \<and> leader_user_id r = uid) (registrations st)"

text \<open>
  The six preconditions of a create hold. A \<open>max_teams\<close> of zero is falsy in the handler's
  test, so it caps nothing; the event schema (\<open>min: 1\<close>) never stores one.
\<close>

definition accepting :: "datetime \<Rightarrow> state \<Rightarrow> objid \<Rightarrow> objid \<Rightarrow> event \<Rightarrow> bool" where
  "accepting now st eid uid ev \<longleftrightarrow>
     published ev \<and> registration_open ev \<and>
     registration_start_datetime ev \<le> now \<and> now \<le> registration_end_datetime ev \<and>
     \<not> already_registered st eid uid \<and>
     (case max_teams ev of None \<Rightarrow> True | Some mt \<Rightarrow> mt = 0 \<or> active_count st eid < mt)"

text \<open>The request names its team: a name that is present and not blank.\<close>

definition team_name_given :: "create_body \<Rightarrow> bool" where
  "team_name_given b \<longleftrightarrow> (case body_team_name b of None \<Rightarrow> False | Some tn \<Rightarrow> trim tn \<noteq> [])"

text \<open>
  The answer's field identifier is one of the event's form fields; and the stored answer
  \<open>s\<close> holds the submitted answer \<open>a\<close> for field \<open>f\<close>: the field's label, and the value,
  as cast, in the slot of the field's type and in no other.
\<close>

definition known_field :: "event \<Rightarrow> submitted_answer \<Rightarrow> bool" where
  "known_field ev a \<longleftrightarrow> list_ex (\<lambda>f. field_id f = sub_field_id a) (form_fields ev)"

definition stores :: "caster \<Rightarrow> form_field \<Rightarrow> submitted_answer \<Rightarrow> answer \<Rightarrow> bool" where
  "stores cast f a s \<longleftrightarrow>
     ans_field_id s = sub_field_id a \<and> field_label s = label f \<and>
     (if field_type f = ''number'' then
        value_number s = cast ''Number'' (sub_value a) \<and> value_number s \<noteq> None \<and>
        value_text s = None \<and> value_date s = None
      else if field_type f = ''date'' then
        value_date s = cast ''Date'' (sub_value a) \<and> value_date s \<noteq> None \<and>
        value_text s = None \<and> value_number s = None
      else
        value_text s = cast ''String'' (sub_value a) \<and> value_text s \<noteq> None \<and>
        value_number s = None \<and> value_date s = None)"

text \<open>
  The caller may edit the event; the update body carries an \<open>event_type\<close> that the
  handler's test takes for a change (truthy, and not the event's); it carries an
  \<open>organizer_id\<close> that the test sees (truthy).
\<close>

definition may_edit :: "caller \<Rightarrow> event \<Rightarrow> bool" where
  "may_edit c ev \<longleftrightarrow> organizer_id ev = userId c \<or> caller_role c = ''admin''"

definition changes_event_type :: "event_update \<Rightarrow> event \<Rightarrow> bool" where
  "changes_event_type b ev \<longleftrightarrow>
     (case upd_event_type b of None \<Rightarrow> False | Some v \<Rightarrow> js_truthy v \<and> v \<noteq> JStr (event_type ev))"

definition names_organizer :: "event_update \<Rightarrow> bool" where
  "names_organizer b \<longleftrightarrow> (case upd_organizer_id b of None \<Rightarrow> False | Some v \<Rightarrow> js_truthy v)"

section \<open>Creating a registration: the preconditions\<close>

lemmas campus_defs = campus_def with_event_def with_registration_def hackathon_def team_body_def
  rockets_def as_caller_def alice_def bob_def carol_def dave_def leader_member_def
  invited_member_def college_field_def year_field_def birth_field_def

lemmas create_defs = create_registration_def create_and_reply_def create_document_def
  team_block_def assemble_members_def find_event_def find_user_def find_user_by_email_def
  existing_registration_def active_count_def registrationData_def submitted_answers_def
  validate_registration_def validate_member_def
  validate_answer_def validate_team_name_def pre_save_def trim_def is_space_def Let_def

lemma existing_registration_iff:
  "existing_registration st eid uid \<noteq> None \<longleftrightarrow> already_registered st eid uid"
  by (auto simp: existing_registration_def already_registered_def find_None_iff list_ex_iff)

lemma create_not_found:
  "find_event st (body_event_id b) = None \<Longrightarrow>
   create_registration cast now c b st = (fail 404 ''Event not found'', st)"
  by (simp add: create_registration_def)

lemma create_not_published:
  "find_event st (body_event_id b) = Some ev \<Longrightarrow> \<not> published ev \<Longrightarrow>
   create_registration cast now c b st = (fail 400 ''Registration is not open for this event'', st)"
  by (simp add: create_registration_def published_def)

lemma create_closed:
  "find_event st (body_event_id b) = Some ev \<Longrightarrow> published ev \<Longrightarrow> \<not> registration_open ev \<Longrightarrow>
   create_registration cast now c b st = (fail 400 ''Registration is currently closed'', st)"
  by (auto simp add: create_registration_def published_def)

lemma create_not_started:
  "find_event st (body_event_id b) = Some ev \<Longrightarrow> published ev \<Longrightarrow> registration_open ev \<Longrightarrow>
   now < registration_start_datetime ev \<Longrightarrow>
   create_registration cast now c b st = (fail 400 ''Registration has not started yet'', st)"
  by (auto simp add: create_registration_def published_def)

lemma create_deadline:
  "find_event st (body_event_id b) = Some ev \<Longrightarrow> published ev \<Longrightarrow> registration_open ev \<Longrightarrow>
   registration_start_datetime ev \<le> now \<Longrightarrow> registration_end_datetime ev < now \<Longrightarrow>
   create_registration cast now c b st = (fail 400 ''Registration deadline has passed'', st)"
  by (auto simp add: create_registration_def published_def)

lemma create_duplicate:
  "find_event st (body_event_id b) = Some ev \<Longrightarrow> published ev \<Longrightarrow> registration_open ev \<Longrightarrow>
   registration_start_datetime ev \<le> now \<Longrightarrow> now \<le> registration_end_datetime ev \<Longrightarrow>
   already_registered st (body_event_id b) (userId c) \<Longrightarrow>
   create_registration cast now c b st = (fail 409 ''You are already registered for this event'', st)"
  using existing_registration_iff[of st "body_event_id b" "userId c"]
  by (auto simp add: create_registration_def published_def)

lemma create_full:
  "find_event st (body_event_id b) = Some ev \<Longrightarrow> published ev \<Longrightarrow> registration_open ev \<Longrightarrow>
   registration_start_datetime ev \<le> now \<Longrightarrow> now \<le> registration_end_datetime ev \<Longrightarrow>
   \<not> already_registered st (body_event_id b) (userId c) \<Longrightarrow>
   max_teams ev = Some mt \<Longrightarrow> mt \<noteq> 0 \<Longrightarrow> mt \<le> active_count st (body_event_id b) \<Longrightarrow>
   create_registration cast now c b st = (fail 400 ''Event has reached maximum capacity'', st)"
  using existing_registration_iff[of st "body_event_id b" "userId c"]
  by (auto simp add: create_registration_def published_def)

text \<open>
  C1. A create checks its preconditions in this order, each with its own failure and
  none changing the state: the event is missing (404); its status is neither published
  nor ongoing (400); \<open>registration_open\<close> is false (400); the time is before the window
  (400, not started) or after it (400, deadline passed); a registration of this event
  led by the caller exists (409); \<open>max_teams\<close> is set and the pending and confirmed
  registrations of the event are not fewer (400, capacity). A create that answers 201 or
  changes the state has passed all six. The event is one the schema admits: a
  \<open>max_teams\<close> that is set is at least 1.
\<close>

theorem create_checks_in_order:
  "(find_event st (body_event_id b) = None \<longrightarrow>
      create_registration cast now c b st = (fail 404 ''Event not found'', st)) \<and>
   (\<forall>ev. find_event st (body_event_id b) = Some ev \<and> max_teams ev \<noteq> Some 0 \<longrightarrow>
      (\<not> published ev \<longrightarrow>
         create_registration cast now c b st =
           (fail 400 ''Registration is not open for this event'', st)) \<and>
      (published ev \<and> \<not> registration_open ev \<longrightarrow>
         create_registration cast now c b st = (fail 400 ''Registration is currently closed'', st)) \<and>
      (published ev \<and> registration_open ev \<and> now < registration_start_datetime ev \<longrightarrow>
         create_registration cast now c b st = (fail 400 ''Registration has not started yet'', st)) \<and>
      (published ev \<and> registration_open ev \<and> registration_start_datetime ev \<le> now \<and>
       registration_end_datetime ev < now \<longrightarrow>
         create_registration cast now c b st = (fail 400 ''Registration deadline has passed'', st)) \<and>
      (published ev \<and> registration_open ev \<and> registration_start_datetime ev \<le> now \<and>
       now \<le> registration_end_datetime ev \<and> already_registered st (body_event_id b) (userId c) \<longrightarrow>
         create_registration cast now c b st =
           (fail 409 ''You are already registered for this event'', st)) \<and>
      (published ev \<and> registration_open ev \<and> registration_start_datetime ev \<le> now \<and>
       now \<le> registration_end_datetime ev \<and> \<not> already_registered st (body_event_id b) (userId c) \<and>
       (\<exists>mt. max_teams ev = Some mt \<and> \<not> active_count st (body_event_id b) < mt) \<longrightarrow>
         create_registration cast now c b st = (fail 400 ''Event has reached maximum capacity'', st)) \<and>
      (code (fst (create_registration cast now c b st)) = 201 \<or>
       snd (create_registration cast now c b st) \<noteq> st \<longrightarrow>
         published ev \<and> registration_open ev \<and> registration_start_datetime ev \<le> now \<and>
         now \<le> registration_end_datetime ev \<and> \<not> already_registered st (body_event_id b) (userId c) \<and>
         (\<forall>mt. max_teams ev = Some mt \<longrightarrow> active_count st (body_event_id b) < mt)))"
proof (intro conjI allI impI)
  fix ev
  assume ev: "find_event st (body_event_id b) = Some ev \<and> max_teams ev \<noteq> Some 0"
  assume made: "code (fst (create_registration cast now c b st)) = 201 \<or>
                snd (create_registration cast now c b st) \<noteq> st"
  have refused: "\<And>k m. create_registration cast now c b st = (fail k m, st) \<Longrightarrow> k \<noteq> 201 \<Longrightarrow> False"
    using made by auto
  from ev have found: "find_event st (body_event_id b) = Some ev" by simp
  show p: "published ev"
    using refused[OF create_not_published[OF found]] by auto
  show o: "registration_open ev"
    using refused[OF create_closed[OF found p]] by auto
  show s: "registration_start_datetime ev \<le> now"
    using refused[OF create_not_started[OF found p o]] by (cases "now < registration_start_datetime ev") auto
  show e: "now \<le> registration_end_datetime ev"
    using refused[OF create_deadline[OF found p o s]] by (cases "registration_end_datetime ev < now") auto
  show d: "\<not> already_registered st (body_event_id b) (userId c)"
    using refused[OF create_duplicate[OF found p o s e]] by auto
  fix mt assume mt: "max_teams ev = Some mt"
  with ev have "mt \<noteq> 0" by auto
  then show "active_count st (body_event_id b) < mt"
    using refused[OF create_full[OF found p o s e d mt]]
    by (cases "mt \<le> active_count st (body_event_id b)") auto
qed (auto simp: create_not_found create_not_published create_closed create_not_started
       create_deadline create_duplicate intro!: create_full)


theorem create_checks_in_order_witness:
  "create_registration keep 1500 (as_caller alice) team_body (campus\<lparr>events := []\<rparr>) =
     (fail 404 ''Event not found'', campus\<lparr>events := []\<rparr>) \<and>
   create_registration keep 1500 (as_caller alice) team_body
       (with_event (hackathon\<lparr>event_status := ''draft''\<rparr>)) =
     (fail 400 ''Registration is not open for this event'',
      with_event (hackathon\<lparr>event_status := ''draft''\<rparr>)) \<and>
   create_registration keep 1500 (as_caller alice) team_body
       (with_event (hackathon\<lparr>registration_open := False\<rparr>)) =
     (fail 400 ''Registration is currently closed'',
      with_event (hackathon\<lparr>registration_open := False\<rparr>)) \<and>
   create_registration keep 500 (as_caller alice) team_body campus =
     (fail 400 ''Registration has not started yet'', campus) \<and>
   create_registration keep 2500 (as_caller alice) team_body campus =
     (fail 400 ''Registration deadline has passed'', campus) \<and>
   create_registration keep 1500 (as_caller alice) team_body (with_registration rockets) =
     (fail 409 ''You are already registered for this event'', with_registration rockets) \<and>
   create_registration keep 1500 (as_caller dave) team_body
       ((with_registration rockets)\<lparr>events := [hackathon\<lparr>max_teams := Some 1\<rparr>]\<rparr>) =
     (fail 400 ''Event has reached maximum capacity'',
      (with_registration rockets)\<lparr>events := [hackathon\<lparr>max_teams := Some 1\<rparr>]\<rparr>) \<and>
   code (fst (create_registration keep 1500 (as_caller alice) team_body campus)) = 201 \<and>
   published hackathon \<and> registration_open hackathon \<and>
   registration_start_datetime hackathon \<le> 1500 \<and> 1500 \<le> registration_end_datetime hackathon \<and>
   \<not> already_registered campus 10 1"
proof -
  note nf = create_checks_in_order[THEN conjunct1, rule_format]
  note B = create_checks_in_order[THEN conjunct2, rule_format]
  note b1 = B[THEN conjunct1, rule_format]
  note b2 = B[THEN conjunct2, THEN conjunct1, rule_format]
  note b3 = B[THEN conjunct2, THEN conjunct2, THEN conjunct1, rule_format]
  note b4 = B[THEN conjunct2, THEN conjunct2, THEN conjunct2, THEN conjunct1, rule_format]
  note b5 = B[THEN conjunct2, THEN conjunct2, THEN conjunct2, THEN conjunct2, THEN conjunct1,
              rule_format]
  note b6 = B[THEN conjunct2, THEN conjunct2, THEN conjunct2, THEN conjunct2, THEN conjunct2,
              THEN conjunct1, rule_format]
  note b7 = B[THEN conjunct2, THEN conjunct2, THEN conjunct2, THEN conjunct2, THEN conjunct2,
              THEN conjunct2, rule_format]
  let ?draft = "hackathon\<lparr>event_status := ''draft''\<rparr>"
  let ?closed = "hackathon\<lparr>registration_open := False\<rparr>"
  let ?capped = "hackathon\<lparr>max_teams := Some 1\<rparr>"
  have 1: "create_registration keep 1500 (as_caller alice) team_body (campus\<lparr>events := []\<rparr>) =
     (fail 404 ''Event not found'', campus\<lparr>events := []\<rparr>)"
    by (rule nf) (simp add: find_event_def)
  have 2: "create_registration keep 1500 (as_caller alice) team_body (with_event ?draft) =
     (fail 400 ''Registration is not open for this event'', with_event ?draft)"
    by (rule b1[where ev = ?draft]) (simp_all add: find_event_def published_def campus_defs)
  have 3: "create_registration keep 1500 (as_caller alice) team_body (with_event ?closed) =
     (fail 400 ''Registration is currently closed'', with_event ?closed)"
    by (rule b2[where ev = ?closed]) (simp_all add: find_event_def published_def campus_defs)
  have 4: "create_registration keep 500 (as_caller alice) team_body campus =
     (fail 400 ''Registration has not started yet'', campus)"
    by (rule b3[where ev = hackathon]) (simp_all add: find_event_def published_def campus_defs)
  have 5: "create_registration keep 2500 (as_caller alice) team_body campus =
     (fail 400 ''Registration deadline has passed'', campus)"
    by (rule b4[where ev = hackathon]) (simp_all add: find_event_def published_def campus_defs)
  have 6: "create_registration keep 1500 (as_caller alice) team_body (with_registration rockets) =
     (fail 409 ''You are already registered for this event'', with_registration rockets)"
    by (rule b5[where ev = hackathon])
       (simp_all add: find_event_def published_def already_registered_def campus_defs)
  have 7: "create_registration keep 1500 (as_caller dave) team_body
       ((with_registration rockets)\<lparr>events := [?capped]\<rparr>) =
     (fail 400 ''Event has reached maximum capacity'',
      (with_registration rockets)\<lparr>events := [?capped]\<rparr>)"
    by (rule b6[where ev = ?capped])
       (simp_all add: find_event_def published_def already_registered_def active_count_def
          campus_defs)
  have made: "code (fst (create_registration keep 1500 (as_caller alice) team_body campus)) = 201"
    by (simp add: create_defs campus_defs)
  have found: "find_event campus (body_event_id team_body) = Some hackathon \<and>
               max_teams hackathon \<noteq> Some 0"
    by (simp add: find_event_def campus_defs)
  have 8: "published hackathon \<and> registration_open hackathon \<and>
   registration_start_datetime hackathon \<le> 1500 \<and> 1500 \<le> registration_end_datetime hackathon \<and>
   \<not> already_registered campus (body_event_id team_body) (userId (as_caller alice))"
    using b7[OF found, of keep 1500 "as_caller alice"] made by blast
  have ids: "body_event_id team_body = 10" "userId (as_caller alice) = 1"
    by (simp_all add: campus_defs)
  show ?thesis using 1 2 3 4 5 6 7 made 8 unfolding ids by blast
qed

section \<open>Creating a registration: the team\<close>

lemma create_accepting:
  assumes "find_event st (body_event_id b) = Some ev"
    and "accepting now st (body_event_id b) (userId c) ev"
  shows "create_registration cast now c b st =
     (if registration_mode ev = ''team'' then
        (case team_block st (userId c) ev b of
           Inl r \<Rightarrow> (r, st)
         | Inr ms \<Rightarrow>
             create_and_reply cast st True
               ((registrationData now (userId c) b ev)
                  \<lparr>team_name := body_team_name b, members := ms,
                   answers := submitted_answers b ev\<rparr>))
      else
        create_and_reply cast st False
          ((registrationData now (userId c) b ev)\<lparr>answers := submitted_answers b ev\<rparr>))"
proof -
  have "existing_registration st (body_event_id b) (userId c) = None"
    using assms(2) existing_registration_iff[of st "body_event_id b" "userId c"]
    by (simp add: accepting_def)
  moreover have "\<not> (case max_teams ev of None \<Rightarrow> False
                     | Some mt \<Rightarrow> mt \<noteq> 0 \<and> active_count st (body_event_id b) \<ge> mt)"
    using assms(2) by (auto simp: accepting_def split: option.splits)
  ultimately show ?thesis
    using assms by (auto simp add: create_registration_def accepting_def published_def)
qed

lemma team_name_given_iff:
  "team_name_given b \<longleftrightarrow>
   \<not> (case body_team_name b of None \<Rightarrow> True | Some tn \<Rightarrow> tn = [] \<or> length (trim tn) = 0)"
  by (auto simp: team_name_given_def trim_def split: option.splits)

lemma show_nat_2: "show_nat 2 = ''2''"
  by (simp add: show_nat.simps digit_def)

lemma show_nat_4: "show_nat 4 = ''4''"
  by (simp add: show_nat.simps digit_def)

text \<open>
  C5. In a team create that passes the preconditions and names its team, once the
  member list is assembled (the leader first, then every added member whatever its invite
  status), a list shorter than \<open>min_team_size\<close> ends the request with
  \<open>Team must have at least N members\<close>, and a longer list than \<open>max_team_size\<close> with
  \<open>Team cannot have more than N members\<close>. With \<open>min_team_size = 2\<close> and no additional
  member the reply is \<open>Team must have at least 2 members\<close>.
\<close>

theorem team_size_enforced:
  assumes found: "find_event st (body_event_id b) = Some ev"
    and acc: "accepting now st (body_event_id b) (userId c) ev"
    and team: "registration_mode ev = ''team''"
    and named: "team_name_given b"
  shows
   "(\<forall>ms. assemble_members st (userId c) b = Inr ms \<and> length ms < min_team_size ev \<longrightarrow>
       create_registration cast now c b st =
         (fail 400 (''Team must have at least '' @ show_nat (min_team_size ev) @ '' members''), st)) \<and>
    (\<forall>ms. assemble_members st (userId c) b = Inr ms \<and> min_team_size ev \<le> length ms \<and>
          max_team_size ev < length ms \<longrightarrow>
       create_registration cast now c b st =
         (fail 400 (''Team cannot have more than '' @ show_nat (max_team_size ev) @ '' members''), st)) \<and>
    (min_team_size ev = 2 \<and> team_members b \<in> {None, Some []} \<and>
     team_members_info b \<in> {None, Some []} \<longrightarrow>
       create_registration cast now c b st = (fail 400 ''Team must have at least 2 members'', st))"
proof -
  note step = create_accepting[OF found acc, of cast]
  have blank: "\<not> (case body_team_name b of None \<Rightarrow> True | Some tn \<Rightarrow> tn = [] \<or> length (trim tn) = 0)"
    using named by (simp add: team_name_given_iff)
  have alone: "team_members b \<in> {None, Some []} \<Longrightarrow> team_members_info b \<in> {None, Some []} \<Longrightarrow>
               assemble_members st (userId c) b = Inr [leader_member (userId c)]"
    by (auto simp: assemble_members_def)
  show ?thesis
    using step team blank alone
    by (auto simp: team_block_def show_nat_2)
qed


theorem team_size_enforced_witness:
  "find_event campus (body_event_id team_body) = Some hackathon \<and>
   accepting 1500 campus (body_event_id team_body) (userId (as_caller alice)) hackathon \<and>
   registration_mode hackathon = ''team'' \<and> team_name_given team_body \<and>
   min_team_size hackathon = 2 \<and> max_team_size hackathon = 4 \<and>
   create_registration keep 1500 (as_caller alice) (team_body\<lparr>team_members := None\<rparr>) campus =
     (fail 400 ''Team must have at least 2 members'', campus) \<and>
   assemble_members campus (userId (as_caller alice)) (team_body\<lparr>team_members := Some [2, 3, 4, 2]\<rparr>) =
     Inr [leader_member 1, invited_member 2, invited_member 3, invited_member 4, invited_member 2] \<and>
   create_registration keep 1500 (as_caller alice) (team_body\<lparr>team_members := Some [2, 3, 4, 2]\<rparr>)
       campus =
     (fail 400 ''Team cannot have more than 4 members'', campus)"
proof -
  let ?solo = "team_body\<lparr>team_members := None\<rparr>"
  let ?five = "team_body\<lparr>team_members := Some [2, 3, 4, 2]\<rparr>"
  have found: "find_event campus (body_event_id team_body) = Some hackathon"
    by (simp add: find_event_def campus_defs)
  have acc: "accepting 1500 campus (body_event_id team_body) (userId (as_caller alice)) hackathon"
    by (simp add: accepting_def published_def already_registered_def campus_defs)
  have team: "registration_mode hackathon = ''team''" by (simp add: campus_defs)
  have named: "team_name_given team_body"
    by (simp add: team_name_given_def trim_def is_space_def campus_defs)
  have bounds: "min_team_size hackathon = 2" "max_team_size hackathon = 4"
    by (simp_all add: campus_defs)
  have same: "body_event_id ?solo = body_event_id team_body" "team_name_given ?solo = team_name_given team_body"
    "body_event_id ?five = body_event_id team_body" "team_name_given ?five = team_name_given team_body"
    by (simp_all add: team_name_given_def)
  have solo: "min_team_size hackathon = 2 \<and> team_members ?solo \<in> {None, Some []} \<and>
              team_members_info ?solo \<in> {None, Some []}"
    by (simp add: campus_defs)
  have five: "assemble_members campus (userId (as_caller alice)) ?five =
     Inr [leader_member 1, invited_member 2, invited_member 3, invited_member 4, invited_member 2]"
    by (simp add: assemble_members_def find_user_def find_user_by_email_def campus_defs)
  have 1: "create_registration keep 1500 (as_caller alice) ?solo campus =
     (fail 400 ''Team must have at least 2 members'', campus)"
    using team_size_enforced[of campus ?solo hackathon 1500 "as_caller alice" keep]
      found acc team named solo unfolding same by blast
  have 2: "create_registration keep 1500 (as_caller alice) ?five campus =
     (fail 400 ''Team cannot have more than 4 members'', campus)"
    using team_size_enforced[of campus ?five hackathon 1500 "as_caller alice" keep]
      found acc team named five unfolding same bounds by (simp add: show_nat_4)
  show ?thesis using found acc team named bounds 1 five 2 by blast
qed


section \<open>Creating a registration: what is stored\<close>

lemma team_block_Inl: "team_block st uid ev b = Inl r \<Longrightarrow> payload r = None"
  by (auto simp: team_block_def split: if_splits sum.splits)

lemma create_and_reply_201:
  "create_and_reply cast st mm r0 = (Reply 201 m (Some r), st') \<Longrightarrow>
   cast_answers cast (answers r0) = Some (answers r) \<and> validate_registration r \<and>
   members r = members r0"
  by (auto simp: create_and_reply_def create_document_def Let_def
           split: sum.splits save_error.splits option.splits if_splits)

lemma create_201:
  assumes "create_registration cast now c b st = (Reply 201 m (Some r), st')"
    and "find_event st (body_event_id b) = Some ev"
  shows "cast_answers cast (submitted_answers b ev) = Some (answers r) \<and> validate_registration r \<and>
         (registration_mode ev = ''team'' \<longrightarrow> team_block st (userId c) ev b = Inr (members r))"
  using assms
  by (auto simp: create_registration_def split: if_splits sum.splits
           dest!: create_and_reply_201 team_block_Inl)


lemma known_field_iff:
  "known_field ev a \<longleftrightarrow> find (\<lambda>f. field_id f = sub_field_id a) (form_fields ev) \<noteq> None"
  by (auto simp: known_field_def find_None_iff list_ex_iff)

lemma process_answers_filter:
  "process_answers (form_fields ev) (filter (known_field ev) as) = process_answers (form_fields ev) as"
  by (induction as) (auto simp: known_field_iff split: option.splits)

lemma submitted_answers_filter:
  "submitted_answers (b\<lparr>form_answers := map_option (filter (known_field ev)) (form_answers b)\<rparr>) ev =
   submitted_answers b ev"
  by (cases "form_answers b") (simp_all add: submitted_answers_def process_answers_filter)

lemma cast_answer_stores:
  "cast_answer cast (answer_data f a) = Some s \<Longrightarrow> stores cast f a s"
  by (cases "cast ''Number'' (sub_value a)"; cases "cast ''Date'' (sub_value a)";
      cases "cast ''String'' (sub_value a)")
     (auto simp: cast_answer_def cast_slot_def answer_data_def stores_def split: if_splits)

lemma cast_process_answers:
  "cast_answers cast (process_answers (form_fields ev) as) = Some out \<Longrightarrow>
   list_all2 (\<lambda>a s. \<exists>f. find (\<lambda>f. field_id f = sub_field_id a) (form_fields ev) = Some f \<and>
                        stores cast f a s)
     (filter (known_field ev) as) out"
proof (induction as arbitrary: out)
  case Nil
  then show ?case by simp
next
  case (Cons a as)
  show ?case
  proof (cases "find (\<lambda>f. field_id f = sub_field_id a) (form_fields ev)")
    case None
    then have "\<not> known_field ev a" by (simp add: known_field_iff)
    with None Cons show ?thesis by simp
  next
    case (Some f)
    then have k: "known_field ev a" by (simp add: known_field_iff)
    from Cons.prems Some obtain s rest where
      s: "cast_answer cast (answer_data f a) = Some s" and
      rest: "cast_answers cast (process_answers (form_fields ev) as) = Some rest" and
      out: "out = s # rest"
      by (auto split: option.splits)
    from Cons.IH[OF rest] cast_answer_stores[OF s] Some k out show ?thesis by auto
  qed
qed

lemma created_members_have_accounts:
  assumes "create_registration cast now c b st = (Reply 201 m (Some r), st')"
    and "mem \<in> set (members r)"
  shows "user_id mem \<noteq> None \<and> invite_status mem \<noteq> ''pending_registration''"
proof (cases "find_event st (body_event_id b)")
  case None
  with assms(1) show ?thesis by (simp add: create_registration_def)
next
  case (Some ev)
  from create_201[OF assms(1) Some] have "list_all validate_member (members r)"
    by (simp add: validate_registration_def)
  with assms(2) have "validate_member mem" by (simp add: list_all_iff)
  then show ?thesis by (auto simp: validate_member_def)
qed

text \<open>
  C7. For the event of the request, a create answers exactly as it would had the
  answers naming no form field of the event never been submitted; and when it answers 201,
  the stored answers are, in order, the submitted answers that name a form field, each
  with the label of the first field of that identifier and its value, as cast, in
  \<open>value_number\<close> for a \<open>number\<close> field, \<open>value_date\<close> for a \<open>date\<close> field and
  \<open>value_text\<close> for any other type.
\<close>

theorem answers_matched_and_stored:
  assumes found: "find_event st (body_event_id b) = Some ev"
  shows
   "create_registration cast now c b st =
      create_registration cast now c
        (b\<lparr>form_answers := map_option (filter (known_field ev)) (form_answers b)\<rparr>) st \<and>
    (\<forall>as m r st'. form_answers b = Some as \<and>
        create_registration cast now c b st = (Reply 201 m (Some r), st') \<longrightarrow>
        list_all2 (\<lambda>a s. \<exists>f. find (\<lambda>f. field_id f = sub_field_id a) (form_fields ev) = Some f \<and>
                             stores cast f a s)
          (filter (known_field ev) as) (answers r))"
proof (intro conjI allI impI)
  let ?b' = "b\<lparr>form_answers := map_option (filter (known_field ev)) (form_answers b)\<rparr>"
  have "assemble_members st (userId c) ?b' = assemble_members st (userId c) b"
    by (simp add: assemble_members_def split: sum.splits)
  then have "team_block st (userId c) ev ?b' = team_block st (userId c) ev b"
    by (simp add: team_block_def)
  moreover have "registrationData now (userId c) ?b' ev = registrationData now (userId c) b ev"
    by (simp add: registrationData_def)
  ultimately show "create_registration cast now c b st = create_registration cast now c ?b' st"
    using found
    by (simp add: create_registration_def submitted_answers_filter
             cong: option.case_cong sum.case_cong if_cong)
next
  fix as m r st'
  assume a: "form_answers b = Some as \<and>
             create_registration cast now c b st = (Reply 201 m (Some r), st')"
  then have "cast_answers cast (submitted_answers b ev) = Some (answers r)"
    using create_201[OF _ found] by blast
  with a have "cast_answers cast (process_answers (form_fields ev) as) = Some (answers r)"
    by (simp add: submitted_answers_def)
  then show "list_all2 (\<lambda>a s. \<exists>f. find (\<lambda>f. field_id f = sub_field_id a) (form_fields ev) = Some f \<and>
                             stores cast f a s)
          (filter (known_field ev) as) (answers r)"
    by (rule cast_process_answers)
qed


lemmas answer_defs = survey_def survey_stored_def keep_def cast_answer_def cast_slot_def
  answer_data_def

theorem answers_matched_and_stored_witness:
  "find_event campus (body_event_id (team_body\<lparr>form_answers := Some survey\<rparr>)) = Some hackathon \<and>
   filter (known_field hackathon) survey = [survey ! 0, survey ! 2, survey ! 3] \<and>
   create_registration keep 1500 (as_caller alice) (team_body\<lparr>form_answers := Some survey\<rparr>) campus =
     (Reply 201 (Some ''Registration successful'') (Some (rockets\<lparr>answers := survey_stored\<rparr>)),
      with_registration (rockets\<lparr>answers := survey_stored\<rparr>)) \<and>
   create_registration keep 1500 (as_caller alice)
       (team_body\<lparr>form_answers := Some [survey ! 0, survey ! 2, survey ! 3]\<rparr>) campus =
     create_registration keep 1500 (as_caller alice) (team_body\<lparr>form_answers := Some survey\<rparr>) campus \<and>
   list_all2 (\<lambda>a s. \<exists>f. find (\<lambda>f. field_id f = sub_field_id a) (form_fields hackathon) = Some f \<and>
                        stores keep f a s)
     [survey ! 0, survey ! 2, survey ! 3] survey_stored"
proof -
  let ?b = "team_body\<lparr>form_answers := Some survey\<rparr>"
  let ?r = "rockets\<lparr>answers := survey_stored\<rparr>"
  have found: "find_event campus (body_event_id ?b) = Some hackathon"
    by (simp add: find_event_def campus_defs)
  have known: "filter (known_field hackathon) survey = [survey ! 0, survey ! 2, survey ! 3]"
    by (simp add: known_field_def survey_def campus_defs)
  have made: "create_registration keep 1500 (as_caller alice) ?b campus =
     (Reply 201 (Some ''Registration successful'') (Some ?r), with_registration ?r)"
    by (simp add: create_defs campus_defs answer_defs)
  note T = answers_matched_and_stored[OF found, of keep 1500 "as_caller alice"]
  have dropped: "create_registration keep 1500 (as_caller alice)
       (team_body\<lparr>form_answers := Some [survey ! 0, survey ! 2, survey ! 3]\<rparr>) campus =
     create_registration keep 1500 (as_caller alice) ?b campus"
    using T[THEN conjunct1] known by simp
  have "form_answers ?b = Some survey \<and>
        create_registration keep 1500 (as_caller alice) ?b campus =
          (Reply 201 (Some ''Registration successful'') (Some ?r), with_registration ?r)"
    using made by simp
  from T[THEN conjunct2, rule_format, OF this]
  have "list_all2 (\<lambda>a s. \<exists>f. find (\<lambda>f. field_id f = sub_field_id a) (form_fields hackathon) = Some f \<and>
                        stores keep f a s)
     [survey ! 0, survey ! 2, survey ! 3] survey_stored"
    using known by simp
  with found known made dropped show ?thesis by blast
qed

text \<open>
  C2. A team create with an email and name pair that resolves to no account: the handler
  pushes the pair with \<open>invite_status = pending_registration\<close> and no \<open>user_id\<close>, and
  the member schema (\<open>user_id\<close> required, \<open>pending_registration\<close> not in the
  enumeration) rejects the document. The create answers 400 and stores nothing.
\<close>

theorem pending_invitee_create_rejected:
  "find_user_by_email campus (info_email eve) = None \<and>
   assemble_members campus (userId (as_caller alice)) (team_body\<lparr>team_members_info := Some [eve]\<rparr>) =
     Inr [leader_member 1, invited_member 2, pending_member eve] \<and>
   create_registration cast 1500 (as_caller alice) (team_body\<lparr>team_members_info := Some [eve]\<rparr>)
       campus =
     (fail 400 ''Validation failed'', campus)"
  by (simp add: create_defs campus_defs eve_def pending_member_def)



section \<open>Invitations and team members\<close>

lemmas member_defs = accepted_member_def declined_member_def
lemmas save_defs = save_registration_def validate_registration_def validate_member_def
  validate_answer_def validate_team_name_def pre_save_def find_event_def find_registration_def
  find_user_def accepted_count_def trim_def is_space_def Let_def

lemma respond_invitation_keeps_status:
  "respond_invitation c (Oid i) action st = (Reply 200 m (Some r'), st') \<Longrightarrow>
   find_registration st i = Some r \<Longrightarrow> status r' = status r"
  by (auto simp: respond_invitation_def Let_def split: option.splits sum.splits if_splits)

lemma respond_invitation_answered:
  "find_registration st i = Some r \<Longrightarrow>
   findIndex (\<lambda>m. user_id m = Some (userId c)) (members r) = Some k \<Longrightarrow>
   invite_status (members r ! k) \<noteq> ''invited'' \<Longrightarrow>
   action = Some ''accept'' \<or> action = Some ''decline'' \<Longrightarrow>
   respond_invitation c (Oid i) action st =
     (fail 400 (''Invitation already '' @ invite_status (members r ! k)), st)"
  by (auto simp: respond_invitation_def Let_def)

text \<open>
  C3. Bob accepts through the invitation endpoint: the accepted and auto-added members
  go from one to two, inside the bounds of two to four, and the registration stays
  \<open>pending\<close>; that endpoint never writes the status. The same acceptance through the
  member endpoint confirms the registration, and confirms a cancelled one as well.
\<close>

theorem accept_leaves_pending:
  "respond_invitation (as_caller bob) (Oid 100) (Some ''accept'') (with_registration rockets) =
     (Reply 200 (Some ''Invitation accepted successfully'')
        (Some (rockets\<lparr>members := [leader_member 1, accepted_member 2]\<rparr>)),
      with_registration (rockets\<lparr>members := [leader_member 1, accepted_member 2]\<rparr>)) \<and>
   accepted_count (members rockets) = 1 \<and>
   accepted_count [leader_member 1, accepted_member 2] = 2 \<and>
   min_team_size hackathon = 2 \<and> max_team_size hackathon = 4 \<and>
   status (rockets\<lparr>members := [leader_member 1, accepted_member 2]\<rparr>) = ''pending'' \<and>
   update_member_status 1600 (as_caller bob) (Oid 100) (Oid 2) (Some ''accepted'')
       (with_registration rockets) =
     (Reply 200 (Some ''Invitation accepted'')
        (Some (rockets\<lparr>members := [leader_member 1, (accepted_member 2)\<lparr>responded_at := Some 1600\<rparr>],
                       status := ''confirmed''\<rparr>)),
      with_registration
        (rockets\<lparr>members := [leader_member 1, (accepted_member 2)\<lparr>responded_at := Some 1600\<rparr>],
                 status := ''confirmed''\<rparr>)) \<and>
   snd (update_member_status 1600 (as_caller bob) (Oid 100) (Oid 2) (Some ''accepted'')
          (with_registration (rockets\<lparr>status := ''cancelled''\<rparr>))) =
     with_registration
       (rockets\<lparr>members := [leader_member 1, (accepted_member 2)\<lparr>responded_at := Some 1600\<rparr>],
                status := ''confirmed''\<rparr>)"
  by (simp add: respond_invitation_def update_member_status_def save_defs campus_defs member_defs)

text \<open>
  C4. Bob has accepted. Through the member endpoint he declines, the request succeeds
  and his \<open>invite_status\<close> is overwritten; the invitation endpoint refuses the same
  change with 400 \<open>Invitation already accepted\<close>.
\<close>

theorem answered_invitation_overwritten:
  "invite_status (accepted_member 2) = ''accepted'' \<and>
   update_member_status 1600 (as_caller bob) (Oid 100) (Oid 2) (Some ''declined'')
       (with_registration (rockets\<lparr>members := [leader_member 1, accepted_member 2]\<rparr>)) =
     (Reply 200 (Some ''Invitation declined'')
        (Some (rockets\<lparr>members := [leader_member 1, (declined_member 2)\<lparr>responded_at := Some 1600\<rparr>]\<rparr>)),
      with_registration
        (rockets\<lparr>members := [leader_member 1, (declined_member 2)\<lparr>responded_at := Some 1600\<rparr>]\<rparr>)) \<and>
   respond_invitation (as_caller bob) (Oid 100) (Some ''decline'')
       (with_registration (rockets\<lparr>members := [leader_member 1, accepted_member 2]\<rparr>)) =
     (fail 400 ''Invitation already accepted'',
      with_registration (rockets\<lparr>members := [leader_member 1, accepted_member 2]\<rparr>))"
  by (simp add: respond_invitation_def update_member_status_def save_defs campus_defs member_defs)

lemma remove_leader_refused:
  "find_registration st i = Some r \<Longrightarrow> leader_user_id r = userId c \<Longrightarrow>
   findIndex (\<lambda>m. user_id m = Some mid) (members r) = Some k \<Longrightarrow>
   role (members r ! k) = ''leader'' \<Longrightarrow>
   remove_member c (Oid i) (Oid mid) st = (fail 400 ''Cannot remove team leader'', st)"
  by (simp add: remove_member_def)

lemma remove_accepted_at_minimum:
  "find_registration st i = Some r \<Longrightarrow> leader_user_id r = userId c \<Longrightarrow>
   findIndex (\<lambda>m. user_id m = Some mid) (members r) = Some k \<Longrightarrow>
   role (members r ! k) \<noteq> ''leader'' \<Longrightarrow> find_event st (event_id r) = Some ev \<Longrightarrow>
   invite_status (members r ! k) = ''accepted'' \<or> invite_status (members r ! k) = ''auto_added'' \<Longrightarrow>
   accepted_count (members r) \<le> min_team_size ev \<Longrightarrow>
   remove_member c (Oid i) (Oid mid) st =
     (fail 400 (''Cannot remove accepted member. Team must have at least ''
                @ show_nat (min_team_size ev) @ '' accepted members''), st)"
  by (auto simp add: remove_member_def)

text \<open>
  C6. Alice, the leader, removes Bob from a team of two whose event asks for two
  members. Bob is invited (or has declined), so the handler skips its own check; the
  save then runs the pre-save hook on the one member left, the hook throws, and the reply
  is 500 with Bob still in the team.
\<close>

theorem invited_member_not_removable:
  "role (invited_member 2) = ''member'' \<and> invite_status (invited_member 2) = ''invited'' \<and>
   remove_member (as_caller alice) (Oid 100) (Oid 2) (with_registration rockets) =
     (fail 500 ''Server error while removing team member'', with_registration rockets) \<and>
   remove_member (as_caller alice) (Oid 100) (Oid 2)
       (with_registration (rockets\<lparr>members := [leader_member 1, declined_member 2]\<rparr>)) =
     (fail 500 ''Server error while removing team member'',
      with_registration (rockets\<lparr>members := [leader_member 1, declined_member 2]\<rparr>))"
  by (simp add: remove_member_def splice1_def save_defs campus_defs member_defs)

section \<open>Who can read a registration\<close>

text \<open>
  C9. Bob is invited to Alice's team and has not accepted; he is not the organizer, the
  leader or an administrator. The single read sends him the registration, and the list
  contains it, with or without the event filter.
\<close>

theorem invited_member_sees_registration:
  "userId (as_caller bob) \<noteq> organizer_id hackathon \<and>
   userId (as_caller bob) \<noteq> leader_user_id rockets \<and>
   caller_role (as_caller bob) \<noteq> ''admin'' \<and>
   \<not> list_ex (\<lambda>m. user_id m = Some (userId (as_caller bob)) \<and>
                  invite_status m \<in> set [''accepted'', ''auto_added'']) (members rockets) \<and>
   get_registration (as_caller bob) (Oid 100) (with_registration rockets) =
     Reply 200 None (Some rockets) \<and>
   list_registrations (as_caller bob) everything (with_registration rockets) =
     Reply 200 None (Some \<lparr>count = 1, total = 1, page_registrations = [rockets]\<rparr>) \<and>
   list_registrations (as_caller bob) (everything\<lparr>q_event_id := Some (Oid 10)\<rparr>)
       (with_registration rockets) =
     Reply 200 None (Some \<lparr>count = 1, total = 1, page_registrations = [rockets]\<rparr>)"
  by (simp add: get_registration_def list_registrations_def run_query_def matches_def paginate_def
        everything_def find_registration_def find_event_def find_user_def campus_defs Let_def)

section \<open>Events after publication\<close>

lemma find_event_oid: "find_event st i = Some ev \<Longrightarrow> event_oid ev = i"
  by (auto simp: find_event_def find_Some_iff)

lemma find_store_event:
  "find_event (store_event st ev') i =
     (case find_event st i of
        None \<Rightarrow> None
      | Some e \<Rightarrow> if i = event_oid ev' then Some ev' else Some e)"
proof -
  have "find (\<lambda>e. event_oid e = i) (map (\<lambda>x. if event_oid x = event_oid ev' then ev' else x) xs) =
        (case find (\<lambda>e. event_oid e = i) xs of
           None \<Rightarrow> None
         | Some e \<Rightarrow> if i = event_oid ev' then Some ev' else Some e)" for xs
    by (induction xs) auto
  then show ?thesis by (simp add: find_event_def store_event_def)
qed

lemma oids_store_event: "map event_oid (events (store_event st ev')) = map event_oid (events st)"
  by (simp add: store_event_def comp_def cong: map_cong)

lemma apply_updates_keeps:
  "event_oid (apply_updates b ev) = event_oid ev"
  "event_type (apply_updates b ev) = event_type ev"
  "organizer_id (apply_updates b ev) = organizer_id ev"
  by (simp_all add: apply_updates_def)

lemma update_event_cases:
  "update_event valid c rid b st = (r, st') \<Longrightarrow>
   st' = st \<or> (\<exists>eid ev. rid = Oid eid \<and> find_event st eid = Some ev \<and>
                  st' = store_event st (apply_updates b ev))"
  by (auto simp: update_event_def Let_def split: raw_id.splits option.splits if_splits)

lemma find_store_event_field:
  "find_event st eid = Some ev \<Longrightarrow> f ev' = f ev \<Longrightarrow> event_oid ev' = eid \<Longrightarrow>
   map_option f (find_event (store_event st ev') i) = map_option f (find_event st i)"
  by (auto simp: find_store_event split: option.splits)

lemma delete_event_cases:
  "delete_event valid c rid st = (r, st') \<Longrightarrow>
   st' = st \<or> (\<exists>eid ev. rid = Oid eid \<and> find_event st eid = Some ev \<and> code r = 200 \<and>
                  st' = store_event st (ev\<lparr>event_status := ''cancelled''\<rparr>))"
  by (auto simp: delete_event_def Let_def split: raw_id.splits option.splits if_splits)


lemma save_registration_events:
  "save_registration st mm r = Inr st' \<Longrightarrow> events st' = events st"
  by (auto simp: save_registration_def split: if_splits option.splits)

lemma create_and_reply_events: "events (snd (create_and_reply cast st mm r0)) = events st"
  by (auto simp: create_and_reply_def create_document_def Let_def
           split: sum.splits save_error.splits option.splits if_splits)

lemma create_registration_events: "events (snd (create_registration cast now c b st)) = events st"
  by (simp add: create_registration_def create_and_reply_events split: option.splits sum.splits)

lemma respond_invitation_events: "events (snd (respond_invitation c rid action st)) = events st"
  by (auto simp: respond_invitation_def Let_def dest: save_registration_events
           split: raw_id.splits option.splits sum.splits)

lemma update_member_status_events:
  "events (snd (update_member_status now c rid mid new_status st)) = events st"
  by (auto simp: update_member_status_def Let_def dest: save_registration_events
           split: raw_id.splits option.splits sum.splits)

lemma remove_member_events: "events (snd (remove_member c rid mid st)) = events st"
  by (auto simp: remove_member_def Let_def dest: save_registration_events
           split: raw_id.splits option.splits sum.splits)

lemma cancel_registration_events: "events (snd (cancel_registration c rid st)) = events st"
  by (auto simp: cancel_registration_def Let_def dest: save_registration_events
           split: raw_id.splits option.splits sum.splits)

text \<open>
  C8, as stated, fails: on the published hackathon an update whose \<open>event_type\<close> is the
  empty string (not the event's type) and whose \<open>organizer_id\<close> is \<open>null\<close> is not
  rejected, and its new title is stored.
\<close>

theorem falsy_event_type_update_accepted:
  "published hackathon \<and>
   upd_event_type retitle = Some (JStr '''') \<and> JStr '''' \<noteq> JStr (event_type hackathon) \<and>
   upd_organizer_id retitle = Some JNull \<and>
   update_event always_valid (as_caller carol) (Oid 10) retitle campus =
     (Reply 200 (Some ''Event updated successfully'')
        (Some (hackathon\<lparr>title := ''Campus Hackathon II''\<rparr>)),
      with_event (hackathon\<lparr>title := ''Campus Hackathon II''\<rparr>)) \<and>
   with_event (hackathon\<lparr>title := ''Campus Hackathon II''\<rparr>) \<noteq> campus"
  by (simp add: update_event_def apply_updates_def store_event_def published_def find_event_def
        retitle_def no_update_def always_valid_def campus_defs Let_def)

text \<open>
  C8, amended. On an event that is published or ongoing, an update whose \<open>event_type\<close>
  is truthy and differs from the event's, or whose \<open>organizer_id\<close> is truthy, is
  refused (403 for a caller who may not edit, else 400) and changes nothing. No update,
  refused or not, changes the \<open>event_type\<close> or the organizer of any event. A delete that
  answers 200 leaves the event in place with status \<open>cancelled\<close>. Neither update nor
  delete, nor any registration handler, removes an event.
\<close>

theorem published_event_guard:
  "(\<forall>ev. find_event st eid = Some ev \<and> published ev \<and>
         (changes_event_type b ev \<or> names_organizer b) \<longrightarrow>
      snd (update_event valid c (Oid eid) b st) = st \<and>
      (if \<not> may_edit c ev then
         fst (update_event valid c (Oid eid) b st) =
           fail 403 ''You are not authorized to update this event''
       else if changes_event_type b ev then
         fst (update_event valid c (Oid eid) b st) =
           fail 400 ''Cannot change event type after publication''
       else
         fst (update_event valid c (Oid eid) b st) =
           fail 400 ''Cannot change organizer after publication'')) \<and>
   (\<forall>i. map_option event_type (find_event (snd (update_event valid c rid b st)) i) =
          map_option event_type (find_event st i) \<and>
        map_option organizer_id (find_event (snd (update_event valid c rid b st)) i) =
          map_option organizer_id (find_event st i)) \<and>
   (\<forall>ev. find_event st eid = Some ev \<and> code (fst (delete_event valid c (Oid eid) st)) = 200 \<longrightarrow>
      find_event (snd (delete_event valid c (Oid eid) st)) eid =
        Some (ev\<lparr>event_status := ''cancelled''\<rparr>)) \<and>
   map event_oid (events (snd (update_event valid c rid b st))) = map event_oid (events st) \<and>
   map event_oid (events (snd (delete_event valid c rid st))) = map event_oid (events st) \<and>
   events (snd (create_registration cast now c cb st)) = events st \<and>
   events (snd (respond_invitation c rid action st)) = events st \<and>
   events (snd (update_member_status now c rid mid new_status st)) = events st \<and>
   events (snd (remove_member c rid mid st)) = events st \<and>
   events (snd (cancel_registration c rid st)) = events st"
proof (intro conjI allI impI)
  fix ev
  assume a: "find_event st eid = Some ev \<and> published ev \<and>
             (changes_event_type b ev \<or> names_organizer b)"
  then show "snd (update_event valid c (Oid eid) b st) = st"
    by (auto simp: update_event_def changes_event_type_def names_organizer_def)
  from a show "if \<not> may_edit c ev then
         fst (update_event valid c (Oid eid) b st) =
           fail 403 ''You are not authorized to update this event''
       else if changes_event_type b ev then
         fst (update_event valid c (Oid eid) b st) =
           fail 400 ''Cannot change event type after publication''
       else
         fst (update_event valid c (Oid eid) b st) =
           fail 400 ''Cannot change organizer after publication''"
    by (auto simp: update_event_def changes_event_type_def names_organizer_def may_edit_def)
next
  fix i
  obtain r st' where u: "update_event valid c rid b st = (r, st')"
    by (cases "update_event valid c rid b st")
  from update_event_cases[OF u] consider "st' = st"
    | eid ev where "find_event st eid = Some ev" "st' = store_event st (apply_updates b ev)"
    by blast
  then have "map_option event_type (find_event st' i) = map_option event_type (find_event st i) \<and>
             map_option organizer_id (find_event st' i) = map_option organizer_id (find_event st i)"
  proof cases
    case 1
    then show ?thesis by simp
  next
    case 2
    from find_event_oid[OF 2(1)] have oid: "event_oid (apply_updates b ev) = eid"
      by (simp add: apply_updates_keeps)
    have "event_type (apply_updates b ev) = event_type ev"
         "organizer_id (apply_updates b ev) = organizer_id ev"
      by (simp_all add: apply_updates_keeps)
    then show ?thesis
      using find_store_event_field[of st eid ev event_type "apply_updates b ev" i, OF 2(1) _ oid]
            find_store_event_field[of st eid ev organizer_id "apply_updates b ev" i, OF 2(1) _ oid]
      unfolding 2(2) by simp
  qed
  then show "map_option event_type (find_event (snd (update_event valid c rid b st)) i) =
          map_option event_type (find_event st i)"
    and "map_option organizer_id (find_event (snd (update_event valid c rid b st)) i) =
          map_option organizer_id (find_event st i)"
    unfolding u by simp_all
next
  fix ev
  assume a: "find_event st eid = Some ev \<and> code (fst (delete_event valid c (Oid eid) st)) = 200"
  then show "find_event (snd (delete_event valid c (Oid eid) st)) eid =
        Some (ev\<lparr>event_status := ''cancelled''\<rparr>)"
    using find_event_oid[of st eid ev]
    by (auto simp: delete_event_def Let_def find_store_event split: if_splits)
next
  obtain r st' where u: "update_event valid c rid b st = (r, st')" by (cases "update_event valid c rid b st")
  from update_event_cases[OF u]
  show "map event_oid (events (snd (update_event valid c rid b st))) = map event_oid (events st)"
    unfolding u by (auto simp: oids_store_event)
next
  obtain r st' where u: "delete_event valid c rid st = (r, st')" by (cases "delete_event valid c rid st")
  from delete_event_cases[OF u]
  show "map event_oid (events (snd (delete_event valid c rid st))) = map event_oid (events st)"
    unfolding u by (auto simp: oids_store_event)
qed (simp_all add: create_registration_events respond_invitation_events
       update_member_status_events remove_member_events cancel_registration_events)


theorem published_event_guard_witness:
  "find_event campus 10 = Some hackathon \<and> published hackathon \<and>
   changes_event_type retype hackathon \<and> may_edit (as_caller carol) hackathon \<and>
   update_event always_valid (as_caller carol) (Oid 10) retype campus =
     (fail 400 ''Cannot change event type after publication'', campus) \<and>
   code (fst (delete_event always_valid (as_caller carol) (Oid 10) campus)) = 200 \<and>
   find_event (snd (delete_event always_valid (as_caller carol) (Oid 10) campus)) 10 =
     Some (hackathon\<lparr>event_status := ''cancelled''\<rparr>)"
proof -
  note G = published_event_guard[where st = campus and eid = 10 and b = retype
             and valid = always_valid and c = "as_caller carol"]
  have found: "find_event campus 10 = Some hackathon"
    by (simp add: find_event_def campus_defs)
  have pub: "published hackathon" by (simp add: published_def campus_defs)
  have ch: "changes_event_type retype hackathon"
    by (simp add: changes_event_type_def retype_def no_update_def campus_defs)
  have may: "may_edit (as_caller carol) hackathon" by (simp add: may_edit_def campus_defs)
  from G[THEN conjunct1, rule_format, of hackathon] found pub ch may
  have upd: "update_event always_valid (as_caller carol) (Oid 10) retype campus =
     (fail 400 ''Cannot change event type after publication'', campus)"
    by (simp add: prod_eq_iff)
  have del: "code (fst (delete_event always_valid (as_caller carol) (Oid 10) campus)) = 200"
    by (simp add: delete_event_def find_event_def always_valid_def campus_defs Let_def)
  from G[THEN conjunct2, THEN conjunct2, THEN conjunct1, rule_format, of hackathon] found del
  have "find_event (snd (delete_event always_valid (as_caller carol) (Oid 10) campus)) 10 =
     Some (hackathon\<lparr>event_status := ''cancelled''\<rparr>)"
    by simp
  with found pub ch may upd del show ?thesis by blast
qed


end
